theory Spec2Isabelle
  imports Main "HOL-Library.AList"
begin

section \<open>Values\<close>

text \<open>
  JSON documents as the Python \<^verbatim>\<open>json\<close> module reads them: \<^verbatim>\<open>None\<close>, booleans,
  unbounded integers, floats, strings, lists and dicts. A dict is an association list in
  insertion order, read with \<^const>\<open>map_of\<close> and written with \<^const>\<open>AList.update\<close>
  (replace in place, or append a new key at the end). The float type is a parameter
  \<open>'f\<close>: the model never computes with floats, it only carries them.
\<close>

datatype 'f json =
    JNull
  | JBool bool
  | JInt int
  | JFloat 'f
  | JStr string
  | JList "'f json list"
  | JDict "(string \<times> 'f json) list"

text \<open>Exceptions: the class and the text of \<^verbatim>\<open>str(e)\<close>.\<close>

datatype exc_class =
    KeyError | TypeError | ValueError | AttributeError | OverflowError
  | UnicodeEncodeError | ImportError | JSONDecodeError | Exception

datatype error = Exc exc_class string

fun exc_str :: "error \<Rightarrow> string" where
  "exc_str (Exc c m) = m"

fun exc_cls :: "error \<Rightarrow> exc_class" where
  "exc_cls (Exc c m) = c"


fun bind_err :: "error + 'a \<Rightarrow> ('a \<Rightarrow> error + 'b) \<Rightarrow> error + 'b" where
  "bind_err (Inl e) f = Inl e"
| "bind_err (Inr x) f = f x"

section \<open>The outside world\<close>

text \<open>
  Everything the handler reads from outside is a field of the world. Each call of the clock,
  of an HTTP client, of the secret store or of the bucket carries the number of the external
  step it is (\<open>t\<close>), so the world may answer two calls with the same arguments differently.
  Library functions whose results the model does not compute (\<^verbatim>\<open>hashlib.md5\<close>,
  \<^verbatim>\<open>json.dumps\<close>, \<^verbatim>\<open>json.loads\<close>, \<^verbatim>\<open>float\<close>, \<^verbatim>\<open>str\<close> of a value that
  is not a string) are fields as well.
\<close>

record 'f http_response =
  status_code :: int
  resp_text :: string
  json_body :: "error + 'f json"

record 'f world =
  now_isoformat :: "nat \<Rightarrow> string"
  now_strftime :: "nat \<Rightarrow> string \<Rightarrow> string"
  total_seconds :: "nat \<Rightarrow> nat \<Rightarrow> 'f"
  md5_hexdigest :: "string \<Rightarrow> string"
  json_dumps :: "'f json \<Rightarrow> string"
  json_dumps_indent :: "'f json \<Rightarrow> string"
  json_loads :: "string \<Rightarrow> error + 'f json"
  py_repr :: "'f json \<Rightarrow> string"
  float_of_str :: "string \<Rightarrow> error + 'f"
  float_of_int :: "int \<Rightarrow> error + 'f"
  float_nonzero :: "'f \<Rightarrow> bool"
  BUCKET_NAME :: "string option"
  SECRET_NAME :: string
  get_secret_value :: "nat \<Rightarrow> string \<Rightarrow> error + (string \<times> string) list"
  requests_importable :: bool
  requests_get :: "nat \<Rightarrow> 'f json \<Rightarrow> (string \<times> 'f json) list \<Rightarrow> error + 'f http_response"
  urllib3_request :: "nat \<Rightarrow> 'f json \<Rightarrow> error + 'f http_response"
  put_object :: "nat \<Rightarrow> string option \<Rightarrow> string \<Rightarrow> string \<Rightarrow> (string \<times> string) list \<Rightarrow> error option"

section \<open>Python primitives\<close>

text \<open>\<^verbatim>\<open>str(v)\<close>, also what an f-string inserts for \<^verbatim>\<open>{v}\<close>.\<close>

fun py_str :: "'f world \<Rightarrow> 'f json \<Rightarrow> string" where
  "py_str w (JStr s) = s"
| "py_str w v = py_repr w v"

text \<open>Truth value of a value in \<^verbatim>\<open>if v:\<close>.\<close>

fun py_truthy :: "'f world \<Rightarrow> 'f json \<Rightarrow> bool" where
  "py_truthy w JNull = False"
| "py_truthy w (JBool b) = b"
| "py_truthy w (JInt i) = (i \<noteq> 0)"
| "py_truthy w (JFloat x) = float_nonzero w x"
| "py_truthy w (JStr s) = (s \<noteq> [])"
| "py_truthy w (JList xs) = (xs \<noteq> [])"
| "py_truthy w (JDict d) = (d \<noteq> [])"

text \<open>\<^verbatim>\<open>v.get(k, dflt)\<close>: only a dict has the method.\<close>

fun py_get :: "'f json \<Rightarrow> string \<Rightarrow> 'f json \<Rightarrow> error + 'f json" where
  "py_get (JDict d) k dflt = (case map_of d k of None \<Rightarrow> Inr dflt | Some v \<Rightarrow> Inr v)"
| "py_get v k dflt = Inl (Exc AttributeError ''object has no attribute get'')"

text \<open>\<^verbatim>\<open>v[k]\<close> for a string key \<open>k\<close>.\<close>

fun py_getitem :: "'f json \<Rightarrow> string \<Rightarrow> error + 'f json" where
  "py_getitem (JDict d) k =
     (case map_of d k of None \<Rightarrow> Inl (Exc KeyError (CHR 0x27 # k @ [CHR 0x27])) | Some v \<Rightarrow> Inr v)"
| "py_getitem v k = Inl (Exc TypeError ''indices must be integers'')"

primrec str_contains :: "string \<Rightarrow> string \<Rightarrow> bool" where
  "str_contains k [] = (k = [])"
| "str_contains k (c # cs) = (take (length k) (c # cs) = k \<or> str_contains k cs)"

text \<open>\<^verbatim>\<open>k in v\<close> for a string \<open>k\<close>: a key of a dict, an element of a list, a substring.\<close>

fun py_in :: "string \<Rightarrow> 'f json \<Rightarrow> error + bool" where
  "py_in k (JDict d) = Inr (map_of d k \<noteq> None)"
| "py_in k (JList xs) = Inr (List.member xs (JStr k))"
| "py_in k (JStr s) = Inr (str_contains k s)"
| "py_in k v = Inl (Exc TypeError ''argument is not iterable'')"

text \<open>\<^verbatim>\<open>xs[:n]\<close> on a Python sequence: a negative bound counts from the end.\<close>

definition slice_to :: "'a list \<Rightarrow> int \<Rightarrow> 'a list" where
  "slice_to xs n = (if 0 \<le> n then take (nat n) xs else take (length xs - nat (- n)) xs)"

fun py_slice_to :: "'f json \<Rightarrow> int \<Rightarrow> error + 'f json" where
  "py_slice_to (JStr s) n = Inr (JStr (slice_to s n))"
| "py_slice_to (JList xs) n = Inr (JList (slice_to xs n))"
| "py_slice_to v n = Inl (Exc TypeError ''object is not subscriptable'')"

text \<open>\<^verbatim>\<open>float(v)\<close>.\<close>

fun py_float :: "'f world \<Rightarrow> 'f json \<Rightarrow> error + 'f" where
  "py_float w (JFloat x) = Inr x"
| "py_float w (JInt i) = float_of_int w i"
| "py_float w (JBool b) = float_of_int w (if b then 1 else 0)"
| "py_float w (JStr s) = float_of_str w s"
| "py_float w v = Inl (Exc TypeError ''float() argument must be a string or a real number'')"

section \<open>Transformer\<close>

text \<open>
  A Python string is modelled by the bytes of its UTF-8 encoding, and a lone surrogate
  (U+D800 to U+DFFF), which a key read by \<^verbatim>\<open>json.loads\<close> can hold, by the three bytes of
  its generalised encoding: \<open>0xED\<close>, then a byte from \<open>0xA0\<close> to \<open>0xBF\<close>, then one more.
  Valid UTF-8 never has these two bytes in a row.
\<close>

fun has_lone_surrogate :: "string \<Rightarrow> bool" where
  "has_lone_surrogate (a # b # cs) =
     ((a = CHR 0xED \<and> (160 :: nat) \<le> of_char b \<and> of_char b \<le> (191 :: nat)) \<or>
      has_lone_surrogate (b # cs))"
| "has_lone_surrogate cs = False"

text \<open>
  \<^verbatim>\<open>unique_string.encode()\<close>, line 339. Of the parts of the hashed string, the index, the
  time in ISO format and the output of \<^verbatim>\<open>json.dumps\<close> (which escapes every character
  outside ASCII) are ASCII, so the encoding raises exactly when the source name holds a lone
  surrogate.
\<close>

definition encode_unique_string :: "string \<Rightarrow> string \<Rightarrow> error + string" where
  "encode_unique_string source_name unique_string =
     (if has_lone_surrogate source_name
      then Inl (Exc UnicodeEncodeError ''surrogates not allowed'')
      else Inr unique_string)"

text \<open>
  \<^verbatim>\<open>transform_data\<close>, lines 333 to 384. The record at index \<open>idx\<close> reads the clock three
  times (for the hashed string, for \<^verbatim>\<open>extracted_at\<close> and for \<^verbatim>\<open>extracted_date\<close>).
  The envelope is the dict literal of lines 341 to 347, built after the identifier of
  lines 338 and 339; the payloads are the dict literals of the three branches; their
  entries are evaluated in the order written, so the first failing lookup or conversion is
  the exception raised.
\<close>

definition envelope ::
  "'f world \<Rightarrow> nat \<Rightarrow> string \<Rightarrow> nat \<Rightarrow> 'f json \<Rightarrow> error + (string \<times> 'f json) list" where
  "envelope w t source_name idx r =
     (let unique_string = source_name @ ''_'' @ py_str w (JInt (int idx)) @ ''_''
                          @ now_isoformat w t @ ''_'' @ json_dumps w r
      in bind_err (encode_unique_string source_name unique_string) (\<lambda>encoded.
           let record_id = take 12 (md5_hexdigest w encoded)
           in Inr [(''record_id'', JStr record_id),
                   (''source'', JStr source_name),
                   (''extracted_at'', JStr (now_isoformat w (t + 1))),
                   (''extracted_date'', JStr (now_strftime w (t + 2) ''%Y-%m-%d'')),
                   (''raw_data'', r)]))"

definition marketing_product :: "'f world \<Rightarrow> 'f json \<Rightarrow> error + 'f json" where
  "marketing_product w r =
     bind_err (py_get r ''id'' JNull) (\<lambda>v_id.
     bind_err (py_get r ''title'' (JStr [])) (\<lambda>v_title.
     bind_err (py_get r ''price'' (JInt 0)) (\<lambda>raw_price.
     bind_err (py_float w raw_price) (\<lambda>v_price.
     bind_err (py_get r ''category'' (JStr [])) (\<lambda>v_category.
     bind_err (py_get r ''description'' (JStr [])) (\<lambda>raw_description.
     bind_err (py_slice_to raw_description 200) (\<lambda>v_description.
     bind_err (py_get r ''image'' (JStr [])) (\<lambda>v_image.
     bind_err (py_get r ''rating'' (JDict [])) (\<lambda>v_rating.
     Inr (JDict [(''id'', v_id),
                 (''title'', v_title),
                 (''price'', JFloat v_price),
                 (''category'', v_category),
                 (''description'', v_description),
                 (''image'', v_image),
                 (''rating'', v_rating)]))))))))))"

definition sales_sale :: "'f json \<Rightarrow> error + 'f json" where
  "sales_sale r =
     bind_err (py_get r ''id'' JNull) (\<lambda>v_id.
     bind_err (py_get r ''userId'' JNull) (\<lambda>v_user_id.
     bind_err (py_get r ''title'' (JStr [])) (\<lambda>v_title.
     bind_err (py_get r ''body'' (JStr [])) (\<lambda>raw_body.
     bind_err (py_slice_to raw_body 200) (\<lambda>v_body.
     Inr (JDict [(''id'', v_id),
                 (''user_id'', v_user_id),
                 (''title'', v_title),
                 (''body'', v_body)]))))))"

definition crm_customer :: "'f world \<Rightarrow> 'f json \<Rightarrow> 'f json \<Rightarrow> error + 'f json" where
  "crm_customer w r name =
     bind_err (py_get name ''first'' (JStr [])) (\<lambda>v_first.
     bind_err (py_get name ''last'' (JStr [])) (\<lambda>v_last.
     bind_err (py_get name ''first'' (JStr [])) (\<lambda>f1.
     bind_err (py_get name ''last'' (JStr [])) (\<lambda>l1.
     bind_err (py_get r ''email'' (JStr [])) (\<lambda>v_email.
     bind_err (py_get r ''phone'' (JStr [])) (\<lambda>v_phone.
     bind_err (py_get r ''location'' (JDict [])) (\<lambda>loc1.
     bind_err (py_get loc1 ''country'' (JStr [])) (\<lambda>v_country.
     bind_err (py_get r ''location'' (JDict [])) (\<lambda>loc2.
     bind_err (py_get loc2 ''city'' (JStr [])) (\<lambda>v_city.
     bind_err (py_get r ''registered'' (JDict [])) (\<lambda>reg.
     bind_err (py_get reg ''date'' (JStr [])) (\<lambda>v_date.
     Inr (JDict [(''first_name'', v_first),
                 (''last_name'', v_last),
                 (''full_name'', JStr (py_str w f1 @ '' '' @ py_str w l1)),
                 (''email'', v_email),
                 (''phone'', v_phone),
                 (''country'', v_country),
                 (''city'', v_city),
                 (''registered_date'', v_date)])))))))))))))"

definition transform_record :: "'f world \<Rightarrow> nat \<Rightarrow> string \<Rightarrow> nat \<Rightarrow> 'f json \<Rightarrow> error + 'f json" where
  "transform_record w t source_name idx r =
     bind_err (envelope w t source_name idx r) (\<lambda>transformed_record.
      if source_name = ''marketing'' then
        bind_err (marketing_product w r) (\<lambda>p.
          Inr (JDict (AList.update ''product'' p transformed_record)))
      else if source_name = ''sales'' then
        bind_err (sales_sale r) (\<lambda>s.
          Inr (JDict (AList.update ''sale'' s transformed_record)))
      else if source_name = ''crm'' then
        bind_err (py_in ''name'' r) (\<lambda>has_name.
          if has_name then
            bind_err (py_getitem r ''name'') (\<lambda>name.
            bind_err (crm_customer w r name) (\<lambda>c.
              Inr (JDict (AList.update ''customer'' c transformed_record))))
          else Inr (JDict transformed_record))
      else Inr (JDict transformed_record))"

fun transform_loop ::
  "'f world \<Rightarrow> nat \<Rightarrow> string \<Rightarrow> nat \<Rightarrow> 'f json list \<Rightarrow> 'f json list \<Rightarrow> error + 'f json list" where
  "transform_loop w t source_name idx transformed [] = Inr transformed"
| "transform_loop w t source_name idx transformed (r # raw_data) =
     (case transform_record w (t + 3 * idx) source_name idx r of
        Inl e \<Rightarrow> Inl e
      | Inr transformed_record \<Rightarrow>
          transform_loop w t source_name (Suc idx) (transformed @ [transformed_record]) raw_data)"

definition transform_data :: "'f world \<Rightarrow> nat \<Rightarrow> string \<Rightarrow> 'f json list \<Rightarrow> error + 'f json list" where
  "transform_data w t source_name raw_data = transform_loop w t source_name 0 [] raw_data"

section \<open>Configuration loader\<close>

text \<open>\<^verbatim>\<open>get_configuration\<close>, lines 151 to 180: every exception of the retrieval ends in the
  built-in configuration.\<close>

definition default_configuration :: "'f json" where
  "default_configuration =
     JDict [(''data_sources'', JDict [
       (''marketing'', JDict [(''name'', JStr ''FakeStore API''),
                              (''url'', JStr ''https://fakestoreapi.com/products''),
                              (''default_limit'', JInt 10)]),
       (''sales'', JDict [(''name'', JStr ''JSONPlaceholder''),
                          (''url'', JStr ''https://jsonplaceholder.typicode.com/posts''),
                          (''default_limit'', JInt 10)]),
       (''crm'', JDict [(''name'', JStr ''RandomUser API''),
                        (''url'', JStr ''https://randomuser.me/api/''),
                        (''default_limit'', JInt 10)])])]"

definition secret_config :: "'f world \<Rightarrow> nat \<Rightarrow> error + 'f json" where
  "secret_config w t =
     bind_err (get_secret_value w t (SECRET_NAME w)) (\<lambda>response.
     bind_err (case map_of response ''SecretString'' of
                 None \<Rightarrow> Inl (Exc KeyError (CHR 0x27 # ''SecretString'' @ [CHR 0x27]))
               | Some s \<Rightarrow> Inr s) (\<lambda>secret_string.
     json_loads w secret_string))"

definition get_configuration :: "'f world \<Rightarrow> nat \<Rightarrow> 'f json" where
  "get_configuration w t =
     (case secret_config w t of
        Inr config \<Rightarrow> config
      | Inl e \<Rightarrow> default_configuration)"

section \<open>Extractor\<close>

text \<open>\<^verbatim>\<open>data[:limit]\<close> where the bound is a value of the configuration.\<close>

fun py_slice_upto :: "'a list \<Rightarrow> 'f json \<Rightarrow> error + 'a list" where
  "py_slice_upto xs (JInt n) = Inr (slice_to xs n)"
| "py_slice_upto xs (JBool b) = Inr (slice_to xs (if b then 1 else 0))"
| "py_slice_upto xs JNull = Inr xs"
| "py_slice_upto xs v = Inl (Exc TypeError ''slice indices must be integers or None'')"

text \<open>Lines 241 to 255, the response shapes of the \<^verbatim>\<open>requests\<close> path.\<close>

definition normalize_requests :: "'f json \<Rightarrow> 'f json \<Rightarrow> error + 'f json" where
  "normalize_requests config data =
     (case data of
        JDict d \<Rightarrow>
          (case map_of d ''results'' of
             Some v \<Rightarrow> Inr v
           | None \<Rightarrow>
               (case map_of d ''data'' of
                  Some v \<Rightarrow> Inr v
                | None \<Rightarrow>
                    (case map_of d ''products'' of
                       Some v \<Rightarrow> Inr v
                     | None \<Rightarrow> Inr (JList [data]))))
      | JList xs \<Rightarrow>
          bind_err (py_get config ''default_limit'' (JInt 10)) (\<lambda>limit.
          bind_err (py_slice_upto xs limit) (\<lambda>ys. Inr (JList ys)))
      | _ \<Rightarrow> Inr (JList [data]))"

text \<open>Lines 310 to 320, the response shapes of the \<^verbatim>\<open>urllib3\<close> path.\<close>

definition normalize_urllib3 :: "'f json \<Rightarrow> 'f json \<Rightarrow> error + 'f json" where
  "normalize_urllib3 config data =
     (case data of
        JDict d \<Rightarrow>
          (case map_of d ''results'' of
             Some v \<Rightarrow> Inr v
           | None \<Rightarrow>
               (case map_of d ''data'' of
                  Some v \<Rightarrow> Inr v
                | None \<Rightarrow> Inr (JList [data])))
      | JList xs \<Rightarrow>
          bind_err (py_get config ''default_limit'' (JInt 10)) (\<lambda>limit.
          bind_err (py_slice_upto xs limit) (\<lambda>ys. Inr (JList ys)))
      | _ \<Rightarrow> Inr (JList [data]))"

text \<open>Lines 191 to 209: the URL and the query parameters of the \<^verbatim>\<open>requests\<close> path.\<close>

definition requests_target :: "string \<Rightarrow> 'f json \<Rightarrow> error + ('f json \<times> (string \<times> 'f json) list)" where
  "requests_target source_name config =
     (if source_name = ''marketing'' then
        bind_err (py_get config ''default_limit'' (JInt 10)) (\<lambda>limit.
          Inr (JStr ''https://fakestoreapi.com/products'', [(''limit'', limit)]))
      else if source_name = ''sales'' then
        bind_err (py_get config ''default_limit'' (JInt 10)) (\<lambda>limit.
          Inr (JStr ''https://jsonplaceholder.typicode.com/posts'', [(''_limit'', limit)]))
      else if source_name = ''crm'' then
        bind_err (py_get config ''default_limit'' (JInt 10)) (\<lambda>limit.
          Inr (JStr ''https://randomuser.me/api/'', [(''results'', limit)]))
      else
        bind_err (py_getitem config ''url'') (\<lambda>url. Inr (url, [])))"

text \<open>Lines 226 to 255: what the \<^verbatim>\<open>requests\<close> path returns for a response.
  \<open>Inl\<close> is an exception, \<open>Inr\<close> a \<^verbatim>\<open>return\<close>; Python's \<^verbatim>\<open>None\<close> is \<open>JNull\<close>.\<close>

definition requests_response :: "'f json \<Rightarrow> 'f http_response \<Rightarrow> error + 'f json" where
  "requests_response config response =
     (if status_code response \<noteq> 200 then Inr JNull
      else
        (case json_body response of
           Inl e \<Rightarrow> (if exc_cls e = JSONDecodeError then Inr JNull else Inl e)
         | Inr data \<Rightarrow> normalize_requests config data))"

text \<open>Lines 187 to 255, the body of the outer \<^verbatim>\<open>try\<close>.\<close>

definition requests_path :: "'f world \<Rightarrow> nat \<Rightarrow> string \<Rightarrow> 'f json \<Rightarrow> error + 'f json" where
  "requests_path w t source_name config =
     (if \<not> requests_importable w then Inl (Exc ImportError ''No module named requests'')
      else
        bind_err (requests_target source_name config) (\<lambda>(url, params).
        bind_err (requests_get w t url params) (requests_response config)))"

text \<open>Lines 273 to 282: the URL of the \<^verbatim>\<open>urllib3\<close> path.\<close>

definition urllib3_target :: "'f world \<Rightarrow> string \<Rightarrow> 'f json \<Rightarrow> error + 'f json" where
  "urllib3_target w source_name config =
     (if source_name = ''marketing'' then
        bind_err (py_get config ''default_limit'' (JInt 10)) (\<lambda>limit.
          Inr (JStr (''https://fakestoreapi.com/products?limit='' @ py_str w limit)))
      else if source_name = ''sales'' then
        bind_err (py_get config ''default_limit'' (JInt 10)) (\<lambda>limit.
          Inr (JStr (''https://jsonplaceholder.typicode.com/posts?_limit='' @ py_str w limit)))
      else if source_name = ''crm'' then
        bind_err (py_get config ''default_limit'' (JInt 10)) (\<lambda>limit.
          Inr (JStr (''https://randomuser.me/api/?results='' @ py_str w limit)))
      else py_getitem config ''url'')"

text \<open>Lines 296 to 320: what the \<^verbatim>\<open>urllib3\<close> path returns for a response.\<close>

definition urllib3_response :: "'f json \<Rightarrow> 'f http_response \<Rightarrow> error + 'f json" where
  "urllib3_response config response =
     (if status_code response \<noteq> 200 then Inr JNull
      else
        (case json_body response of
           Inl e \<Rightarrow> (if exc_cls e = JSONDecodeError then Inr JNull else Inl e)
         | Inr data \<Rightarrow> normalize_urllib3 config data))"

text \<open>Lines 261 to 320, the body of the inner \<^verbatim>\<open>try\<close> of the fallback.\<close>

definition urllib3_path :: "'f world \<Rightarrow> nat \<Rightarrow> string \<Rightarrow> 'f json \<Rightarrow> error + 'f json" where
  "urllib3_path w t source_name config =
     bind_err (urllib3_target w source_name config) (\<lambda>url.
     bind_err (urllib3_request w t url) (urllib3_response config))"

text \<open>\<^verbatim>\<open>extract_data_safe\<close>, lines 183 to 330: an \<^verbatim>\<open>ImportError\<close> of the first body
  starts the fallback, whose exceptions all end in \<^verbatim>\<open>None\<close> (line 322); any other
  exception of the first body ends in \<^verbatim>\<open>None\<close> as well (line 326).\<close>

definition extract_data_safe :: "'f world \<Rightarrow> nat \<Rightarrow> string \<Rightarrow> 'f json \<Rightarrow> 'f json" where
  "extract_data_safe w t source_name config =
     (case requests_path w t source_name config of
        Inr r \<Rightarrow> r
      | Inl e \<Rightarrow>
          (if exc_cls e = ImportError then
             (case urllib3_path w t source_name config of
                Inr r \<Rightarrow> r
              | Inl e' \<Rightarrow> JNull)
           else JNull))"

section \<open>Loader and run summary\<close>

text \<open>\<^verbatim>\<open>len(v)\<close>.\<close>

fun py_len :: "'f json \<Rightarrow> error + int" where
  "py_len (JDict d) = Inr (int (length d))"
| "py_len (JList xs) = Inr (int (length xs))"
| "py_len (JStr s) = Inr (int (length s))"
| "py_len v = Inl (Exc TypeError ''object has no len()'')"

text \<open>\<^verbatim>\<open>load_to_s3\<close>, lines 387 to 411: three clock reads, then the write at step
  \<open>t + 3\<close>; an exception of the write leaves the function.\<close>

definition load_to_s3 :: "'f world \<Rightarrow> nat \<Rightarrow> string \<Rightarrow> 'f json list \<Rightarrow> error + string" where
  "load_to_s3 w t source_name data =
     (let current_date = now_strftime w t ''%Y-%m-%d'';
          timestamp = now_strftime w (t + 1) ''%Y%m%d_%H%M%S'';
          s3_key = ''data/'' @ source_name @ ''/date='' @ current_date @ ''/''
                   @ source_name @ ''_'' @ timestamp @ ''.json'';
          metadata = [(''source'', source_name),
                      (''record_count'', py_str w (JInt (int (length data)))),
                      (''extracted_date'', current_date),
                      (''extracted_timestamp'', now_isoformat w (t + 2))]
      in case put_object w (t + 3) (BUCKET_NAME w) s3_key
                (json_dumps_indent w (JList data)) metadata of
           Some e \<Rightarrow> Inl e
         | None \<Rightarrow> Inr s3_key)"

record 'f results =
  execution_id :: string
  start_time :: string
  end_time :: "string option"
  duration_seconds :: "'f option"
  success :: bool
  sources_processed :: "string list"
  total_records :: int
  errors :: "string list"
  files_created :: "string list"

definition results_json :: "'f results \<Rightarrow> 'f json" where
  "results_json results =
     JDict [(''execution_id'', JStr (execution_id results)),
            (''start_time'', JStr (start_time results)),
            (''end_time'', (case end_time results of None \<Rightarrow> JNull | Some s \<Rightarrow> JStr s)),
            (''duration_seconds'', (case duration_seconds results of None \<Rightarrow> JNull | Some x \<Rightarrow> JFloat x)),
            (''success'', JBool (success results)),
            (''sources_processed'', JList (map JStr (sources_processed results))),
            (''total_records'', JInt (total_records results)),
            (''errors'', JList (map JStr (errors results))),
            (''files_created'', JList (map JStr (files_created results)))]"

text \<open>\<^verbatim>\<open>save_execution_summary\<close>, lines 414 to 446.\<close>

definition save_execution_summary :: "'f world \<Rightarrow> nat \<Rightarrow> 'f results \<Rightarrow> 'f json \<Rightarrow> error + string" where
  "save_execution_summary w t results config =
     (let execution_date = now_strftime w t ''%Y-%m-%d'';
          execution_time = now_isoformat w (t + 1)
      in
      bind_err (py_get config ''data_sources'' (JDict [])) (\<lambda>data_sources.
      bind_err (py_len data_sources) (\<lambda>sources_configured.
        let summary = JDict [
              (''execution_id'', JStr (execution_id results)),
              (''execution_date'', JStr execution_date),
              (''execution_time'', JStr execution_time),
              (''duration_seconds'', (case duration_seconds results of None \<Rightarrow> JNull | Some x \<Rightarrow> JFloat x)),
              (''success'', JBool (success results)),
              (''statistics'', JDict [
                 (''sources_configured'', JInt sources_configured),
                 (''sources_processed'', JInt (int (length (sources_processed results)))),
                 (''total_records'', JInt (total_records results)),
                 (''files_created'', JInt (int (length (files_created results)))),
                 (''errors'', JInt (int (length (errors results))))]),
              (''sources_processed'', JList (map JStr (sources_processed results))),
              (''files_created'', JList (map JStr (files_created results))),
              (''errors'', JList (map JStr (errors results)))];
            current_date = now_strftime w (t + 2) ''%Y-%m-%d'';
            s3_key = ''metadata/executions/date='' @ current_date @ ''/execution_''
                     @ execution_id results @ ''.json''
        in case put_object w (t + 3) (BUCKET_NAME w) s3_key (json_dumps_indent w summary) [] of
             Some e \<Rightarrow> Inl e
           | None \<Rightarrow> Inr s3_key)))"

section \<open>Run orchestrator\<close>

text \<open>What \<^verbatim>\<open>for idx, record in enumerate(v)\<close> iterates over.\<close>

fun py_iter :: "'f json \<Rightarrow> error + 'f json list" where
  "py_iter (JList xs) = Inr xs"
| "py_iter (JDict d) = Inr (map (\<lambda>kv. JStr (fst kv)) d)"
| "py_iter (JStr s) = Inr (map (\<lambda>c. JStr [c]) s)"
| "py_iter v = Inl (Exc TypeError ''object is not iterable'')"

text \<open>\<^verbatim>\<open>v.items()\<close>.\<close>

fun py_items :: "'f json \<Rightarrow> error + (string \<times> 'f json) list" where
  "py_items (JDict d) = Inr d"
| "py_items v = Inl (Exc AttributeError ''object has no attribute items'')"

definition error_msg :: "string \<Rightarrow> error \<Rightarrow> string" where
  "error_msg source_name e = ''Error processing '' @ source_name @ '': '' @ exc_str e"

text \<open>
  One round of the loop, lines 85 to 111, from external step \<open>t\<close>: the new results and the
  next free step. The extraction is step \<open>t\<close>, the transformation reads the clock from
  \<open>t + 1\<close> on, three times a record, the load follows. \<^verbatim>\<open>transform_data\<close> is given
  the list that its \<^verbatim>\<open>enumerate(raw_data)\<close> iterates over; on a value that cannot be
  iterated the \<^verbatim>\<open>TypeError\<close> is raised there and caught by the handler of line 107,
  like every other exception of the round.
\<close>

definition process_source ::
  "'f world \<Rightarrow> 'f results \<times> nat \<Rightarrow> string \<times> 'f json \<Rightarrow> 'f results \<times> nat" where
  "process_source w st src =
     (let results = fst st; t = snd st; source_name = fst src; source_config = snd src;
          raw_data = extract_data_safe w t source_name source_config
      in
      if py_truthy w raw_data then
        (case py_iter raw_data of
           Inl e \<Rightarrow> (results\<lparr>errors := errors results @ [error_msg source_name e]\<rparr>, t + 1)
         | Inr records \<Rightarrow>
             (let t1 = t + 1 + 3 * length records in
              case transform_data w (t + 1) source_name records of
                Inl e \<Rightarrow> (results\<lparr>errors := errors results @ [error_msg source_name e]\<rparr>, t1)
              | Inr transformed_data \<Rightarrow>
                  (case load_to_s3 w t1 source_name transformed_data of
                     Inl e \<Rightarrow>
                       (results\<lparr>errors := errors results @ [error_msg source_name e]\<rparr>, t1 + 4)
                   | Inr file_path \<Rightarrow>
                       (results\<lparr>sources_processed := sources_processed results @ [source_name],
                                total_records := total_records results + int (length transformed_data),
                                files_created := files_created results @ [file_path]\<rparr>,
                        t1 + 4))))
      else (results, t + 1))"

fun process_sources ::
  "'f world \<Rightarrow> 'f results \<times> nat \<Rightarrow> (string \<times> 'f json) list \<Rightarrow> 'f results \<times> nat" where
  "process_sources w st [] = st"
| "process_sources w st (src # rest) = process_sources w (process_source w st src) rest"

text \<open>Line 79 takes \<^verbatim>\<open>len(config['data_sources'])\<close>, line 84 its \<^verbatim>\<open>items()\<close>.\<close>

definition data_source_items :: "'f json \<Rightarrow> error + (string \<times> 'f json) list" where
  "data_source_items config =
     bind_err (py_getitem config ''data_sources'') (\<lambda>data_sources.
     bind_err (py_len data_sources) (\<lambda>n. py_items data_sources))"

text \<open>
  The body of the outer \<^verbatim>\<open>try\<close>, lines 71 to 116, from the initial results: the
  configuration read, the results as the body leaves them, the next free step, and the
  exception that left the body, if one did.
\<close>

definition pipeline_body ::
  "'f world \<Rightarrow> 'f results \<Rightarrow> 'f json \<times> 'f results \<times> nat \<times> error option" where
  "pipeline_body w results =
     (let config = get_configuration w 1 in
      if \<not> py_truthy w config then
        (config, results, 2, Some (Exc Exception ''Failed to load configuration''))
      else
        (case data_source_items config of
           Inl e \<Rightarrow> (config, results, 2, Some e)
         | Inr items \<Rightarrow>
             (let st = process_sources w (results, 2) items in
              case save_execution_summary w (snd st) (fst st) config of
                Inl e \<Rightarrow> (config, fst st, snd st + 4, Some e)
              | Inr summary_path \<Rightarrow>
                  (config,
                   (fst st)\<lparr>files_created := files_created (fst st) @ [summary_path]\<rparr>,
                   snd st + 4, None))))"

text \<open>The handler of lines 118 to 122 on the exception of the body.\<close>

definition after_try :: "'f results \<Rightarrow> error option \<Rightarrow> 'f results" where
  "after_try results exc =
     (case exc of
        None \<Rightarrow> results
      | Some e \<Rightarrow> results\<lparr>success := False,
                             errors := errors results @ [''Fatal error: '' @ exc_str e]\<rparr>)"

text \<open>The request context: \<^verbatim>\<open>None\<close>, or an object with its attributes.\<close>

type_synonym request_context = "(string \<times> string) list option"

definition request_id_of :: "request_context \<Rightarrow> error + string" where
  "request_id_of context =
     (case context of
        None \<Rightarrow> Inr ''local-test''
      | Some attrs \<Rightarrow>
          (case map_of attrs ''request_id'' of
             None \<Rightarrow> Inl (Exc AttributeError ''object has no attribute request_id'')
           | Some rid \<Rightarrow> Inr rid))"

record response =
  statusCode :: int
  body :: string
  headers :: "(string \<times> string) list"

text \<open>The results tracker of lines 58 to 68; the start time is the clock read of step 0.\<close>

definition initial_results :: "'f world \<Rightarrow> string \<Rightarrow> 'f results" where
  "initial_results w rid =
     \<lparr>execution_id = rid, start_time = now_isoformat w 0, end_time = None,
      duration_seconds = None, success = True, sources_processed = [],
      total_records = 0, errors = [], files_created = []\<rparr>"

text \<open>
  \<^verbatim>\<open>lambda_handler\<close> up to line 140: the results as the response is built from them.
  The first clock read is step 0, the configuration is read at step 1. Line 135 evaluates
  \<^verbatim>\<open>len(config['data_sources'] if config else {})\<close> outside the \<^verbatim>\<open>try\<close>.
\<close>

definition final_results :: "'f world \<Rightarrow> request_context \<Rightarrow> error + 'f results" where
  "final_results w context =
     bind_err (request_id_of context) (\<lambda>rid.
       let (config, results1, t, exc) = pipeline_body w (initial_results w rid);
           results2 = after_try results1 exc;
           results3 = results2\<lparr>end_time := Some (now_isoformat w t),
                               duration_seconds := Some (total_seconds w 0 t)\<rparr>
       in
       bind_err (if py_truthy w config then bind_err (py_getitem config ''data_sources'') py_len
                 else Inr 0) (\<lambda>n.
         Inr results3))"

definition lambda_handler :: "'f world \<Rightarrow> 'f json \<Rightarrow> request_context \<Rightarrow> error + response" where
  "lambda_handler w event context =
     bind_err (final_results w context) (\<lambda>results.
       Inr \<lparr>statusCode = (if success results then 200 else 500),
            body = json_dumps w (results_json results),
            headers = [(''Content-Type'', ''application/json'')]\<rparr>)"

section \<open>Sample worlds\<close>

text \<open>
  Concrete worlds on which the definitions are evaluated. A float is written as a decimal,
  mantissa and exponent. In \<open>sample_world\<close> the secret store cannot be reached, the
  \<^verbatim>\<open>requests\<close> client answers every call with one JSON object in a list, and every
  write to the bucket succeeds.
\<close>

definition sample_response :: "(int \<times> int) http_response" where
  "sample_response =
     \<lparr>status_code = 200, resp_text = [],
      json_body = Inr (JList [JDict [(''id'', JInt 1), (''price'', JStr ''9.99'')]])\<rparr>"

definition sample_world :: "(int \<times> int) world" where
  "sample_world =
     \<lparr>now_isoformat = (\<lambda>t. ''2024-01-01T00:00:00''),
      now_strftime = (\<lambda>t fmt. if fmt = ''%Y-%m-%d'' then ''2024-01-01'' else ''20240101_000000''),
      total_seconds = (\<lambda>t0 t1. (0, 0)),
      md5_hexdigest = (\<lambda>s. ''0123456789abcdef0123456789abcdef''),
      json_dumps = (\<lambda>v. ''{}''),
      json_dumps_indent = (\<lambda>v. ''{}''),
      json_loads = (\<lambda>s. Inl (Exc JSONDecodeError ''Expecting value'')),
      py_repr = (\<lambda>v. ''?''),
      float_of_str = (\<lambda>s. if s = ''9.99'' then Inr (999, - 2)
                          else Inl (Exc ValueError ''could not convert string to float'')),
      float_of_int = (\<lambda>i. Inr (i, 0)),
      float_nonzero = (\<lambda>x. fst x \<noteq> 0),
      BUCKET_NAME = Some ''bucket'',
      SECRET_NAME = ''data-pipeline-config'',
      get_secret_value = (\<lambda>t n. Inl (Exc Exception ''ResourceNotFoundException'')),
      requests_importable = True,
      requests_get = (\<lambda>t url params. Inr sample_response),
      urllib3_request = (\<lambda>t url. Inr sample_response),
      put_object = (\<lambda>t bucket key content metadata. None)\<rparr>"

text \<open>Every upstream API answers with status 500.\<close>

definition offline_world :: "(int \<times> int) world" where
  "offline_world =
     sample_world\<lparr>requests_get := (\<lambda>t url params.
       Inr \<lparr>status_code = 500, resp_text = ''Internal Server Error'',
            json_body = Inl (Exc JSONDecodeError ''Expecting value'')\<rparr>)\<rparr>"

text \<open>The bucket refuses the write of the run summary, and only that one.\<close>

definition summary_denied_world :: "(int \<times> int) world" where
  "summary_denied_world =
     sample_world\<lparr>put_object := (\<lambda>t bucket key content metadata.
       if take 9 key = ''metadata/'' then Some (Exc Exception ''AccessDenied'') else None)\<rparr>"

text \<open>The secret holds a JSON object that has no \<^verbatim>\<open>data_sources\<close> key.\<close>

definition versioned_secret :: string where
  "versioned_secret = ''{'' @ [CHR 0x22] @ ''version'' @ [CHR 0x22] @ '': 1}''"

definition misconfigured_world :: "(int \<times> int) world" where
  "misconfigured_world =
     sample_world\<lparr>get_secret_value := (\<lambda>t n. Inr [(''SecretString'', versioned_secret)]),
                  json_loads := (\<lambda>s. if s = versioned_secret then Inr (JDict [(''version'', JInt 1)])
                                      else Inl (Exc JSONDecodeError ''Expecting value''))\<rparr>"

text \<open>The body of every answer is an object with a \<^verbatim>\<open>products\<close> key; in
  \<open>fallback_world\<close> the \<^verbatim>\<open>requests\<close> library is not installed.\<close>

definition products_response :: "(int \<times> int) http_response" where
  "products_response =
     \<lparr>status_code = 200, resp_text = [],
      json_body = Inr (JDict [(''products'', JList [JDict [(''id'', JInt 1)]])])\<rparr>"

definition products_world :: "(int \<times> int) world" where
  "products_world =
     sample_world\<lparr>requests_get := (\<lambda>t url params. Inr products_response),
                  urllib3_request := (\<lambda>t url. Inr products_response)\<rparr>"

definition fallback_world :: "(int \<times> int) world" where
  "fallback_world = products_world\<lparr>requests_importable := False\<rparr>"

text \<open>The \<^verbatim>\<open>requests\<close> client answers only a request for one URL without query
  parameters; every other request gets status 404.\<close>

definition catalog_world :: "(int \<times> int) world" where
  "catalog_world =
     sample_world\<lparr>requests_get := (\<lambda>t url params.
       if url = JStr ''https://example.org/items'' \<and> params = [] then Inr sample_response
       else Inr \<lparr>status_code = 404, resp_text = ''Not Found'',
                 json_body = Inl (Exc JSONDecodeError ''Expecting value'')\<rparr>)\<rparr>"

text \<open>The raw marketing record of the specification's example.\<close>

definition marketing_example :: "'f json" where
  "marketing_example =
     JDict [(''id'', JInt 1), (''title'', JStr ''T''), (''price'', JStr ''9.99''),
            (''category'', JStr ''c''), (''description'', JStr (replicate 300 CHR ''d'')),
            (''image'', JStr ''i'')]"

section \<open>Notions used in the statements\<close>

text \<open>A call returns (does not raise).\<close>

definition returns :: "error + 'a \<Rightarrow> bool" where
  "returns m = (case m of Inl e \<Rightarrow> False | Inr x \<Rightarrow> True)"


text \<open>A source name that holds a lone surrogate (U+D800).\<close>

definition surrogate_name :: string where
  "surrogate_name = [CHR 0xED, CHR 0xA0, CHR 0x80]"

text \<open>The record \<open>out\<close> carries the envelope of the raw record \<open>r\<close> of a source.\<close>

definition envelope_of :: "string \<Rightarrow> 'f json \<Rightarrow> 'f json \<Rightarrow> bool" where
  "envelope_of source_name r out =
     (case out of
        JDict d \<Rightarrow>
          map_of d ''record_id'' \<noteq> None \<and> map_of d ''source'' = Some (JStr source_name) \<and>
          map_of d ''extracted_at'' \<noteq> None \<and> map_of d ''extracted_date'' \<noteq> None \<and>
          map_of d ''raw_data'' = Some r
      | _ \<Rightarrow> False)"


text \<open>The payload of a raw record can be built: the part of \<open>transform_record\<close>, after
  the envelope, that may raise.\<close>

definition payload_ok :: "'f world \<Rightarrow> string \<Rightarrow> 'f json \<Rightarrow> bool" where
  "payload_ok w source_name r =
     (if source_name = ''marketing'' then returns (marketing_product w r)
      else if source_name = ''sales'' then returns (sales_sale r)
      else if source_name = ''crm'' then
        (case py_in ''name'' r of
           Inl e \<Rightarrow> False
         | Inr has_name \<Rightarrow>
             (if has_name then returns (bind_err (py_getitem r ''name'') (crm_customer w r))
              else True))
      else True)"

section \<open>Auxiliary facts\<close>

lemma bind_err_Inr: "bind_err m f = Inr y \<longleftrightarrow> (\<exists>x. m = Inr x \<and> f x = Inr y)"
  by (cases m) auto

lemma bind_err_Inl: "bind_err m f = Inl e \<longleftrightarrow> m = Inl e \<or> (\<exists>x. m = Inr x \<and> f x = Inl e)"
  by (cases m) auto

lemma returns_iff: "returns m \<longleftrightarrow> (\<exists>x. m = Inr x)"
  by (cases m) (auto simp: returns_def)


lemma py_get_error: "py_get r k dflt = Inl e \<Longrightarrow> exc_cls e = AttributeError"
  by (cases r) (auto split: option.splits)

lemma py_getitem_error:
  "py_getitem r k = Inl e \<Longrightarrow> exc_cls e = KeyError \<or> exc_cls e = TypeError"
  by (cases r) (auto split: option.splits)


subsection \<open>Transformer\<close>


lemma envelope_returns: "(\<exists>env. envelope w t s idx r = Inr env) \<longleftrightarrow> \<not> has_lone_surrogate s"
  by (simp add: envelope_def encode_unique_string_def Let_def)

lemma envelope_raises:
  "has_lone_surrogate s \<Longrightarrow>
   envelope w t s idx r = Inl (Exc UnicodeEncodeError ''surrogates not allowed'')"
  by (simp add: envelope_def encode_unique_string_def Let_def)

lemma envelope_of_envelope: "envelope w t s idx r = Inr env \<Longrightarrow> envelope_of s r (JDict env)"
  by (auto simp add: envelope_of_def envelope_def encode_unique_string_def Let_def
      split: if_splits)


lemma envelope_of_update:
  "envelope w t s idx r = Inr env \<Longrightarrow>
   k \<notin> {''record_id'', ''source'', ''extracted_at'', ''extracted_date'', ''raw_data''} \<Longrightarrow>
   envelope_of s r (JDict (AList.update k v env))"
  by (auto simp add: envelope_of_def envelope_def encode_unique_string_def Let_def update_conv'
      split: if_splits)

lemma transform_record_envelope:
  "transform_record w t s idx r = Inr out \<Longrightarrow> envelope_of s r out"
  unfolding transform_record_def
  by (auto simp: bind_err_Inr envelope_of_envelope envelope_of_update split: if_splits)

lemma transform_loop_envelope:
  "transform_loop w t s idx acc raw = Inr out \<Longrightarrow>
   \<exists>new. out = acc @ new \<and> list_all2 (envelope_of s) raw new"
proof (induction raw arbitrary: idx acc)
  case Nil
  then show ?case by simp
next
  case (Cons r raw)
  from Cons.prems obtain tr where tr: "transform_record w (t + 3 * idx) s idx r = Inr tr"
    and rest: "transform_loop w t s (Suc idx) (acc @ [tr]) raw = Inr out"
    by (auto split: sum.splits)
  from Cons.IH[OF rest] obtain new
    where "out = (acc @ [tr]) @ new" "list_all2 (envelope_of s) raw new"
    by blast
  with transform_record_envelope[OF tr] show ?case by auto
qed

lemma transform_record_ok:
  "(\<exists>out. transform_record w t s idx r = Inr out) \<longleftrightarrow>
   \<not> has_lone_surrogate s \<and> payload_ok w s r"
proof (cases "has_lone_surrogate s")
  case True
  then show ?thesis by (simp add: transform_record_def envelope_raises)
next
  case False
  then obtain env where "envelope w t s idx r = Inr env"
    using envelope_returns[of w t s idx r] by blast
  with False show ?thesis
    unfolding transform_record_def payload_ok_def
    by (auto simp: bind_err_Inr returns_iff split: sum.splits)
qed

lemma transform_loop_ok:
  "(\<exists>out. transform_loop w t s idx acc raw = Inr out) \<longleftrightarrow>
   list_all (\<lambda>r. \<not> has_lone_surrogate s \<and> payload_ok w s r) raw"
proof (induction raw arbitrary: idx acc)
  case Nil
  then show ?case by simp
next
  case (Cons r raw)
  show ?case
  proof (cases "transform_record w (t + 3 * idx) s idx r")
    case (Inl e)
    then have "\<not> (\<not> has_lone_surrogate s \<and> payload_ok w s r)"
      using transform_record_ok[of w "t + 3 * idx" s idx r] by simp
    with Inl show ?thesis by auto
  next
    case (Inr tr)
    then have "\<not> has_lone_surrogate s \<and> payload_ok w s r"
      using transform_record_ok[of w "t + 3 * idx" s idx r] by auto
    with Inr Cons.IH[of "Suc idx" "acc @ [tr]"] show ?thesis by simp
  qed
qed

lemma transform_data_ok:
  "(\<exists>out. transform_data w t s raw = Inr out) \<longleftrightarrow>
   list_all (\<lambda>r. \<not> has_lone_surrogate s \<and> payload_ok w s r) raw"
  by (simp add: transform_data_def transform_loop_ok)













lemma marketing_example_product:
  "float_of_str w ''9.99'' = Inr x \<Longrightarrow>
   marketing_product w marketing_example =
     Inr (JDict [(''id'', JInt 1), (''title'', JStr ''T''), (''price'', JFloat x),
                 (''category'', JStr ''c''), (''description'', JStr (replicate 200 CHR ''d'')),
                 (''image'', JStr ''i''), (''rating'', JDict [])])"
  by (simp add: marketing_product_def marketing_example_def slice_to_def)

lemma payload_ok_unknown:
  "s \<notin> {''marketing'', ''sales'', ''crm''} \<Longrightarrow> payload_ok w s r"
  by (simp add: payload_ok_def)

lemma transform_data_unknown:
  assumes "s \<notin> {''marketing'', ''sales'', ''crm''}"
  shows "(\<exists>out. transform_data w t s raw = Inr out) \<longleftrightarrow> raw = [] \<or> \<not> has_lone_surrogate s"
  using payload_ok_unknown[OF assms, of w]
  by (cases raw) (auto simp: transform_data_ok list_all_iff)

lemma transform_data_surrogate:
  assumes "has_lone_surrogate s" and "raw \<noteq> []"
  shows "transform_data w t s raw = Inl (Exc UnicodeEncodeError ''surrogates not allowed'')"
  using assms
  by (cases raw) (simp_all add: transform_data_def transform_record_def envelope_raises)

lemma sales_sample_run:
  "transform_data sample_world 0 ''sales'' [JDict [(''id'', JInt 7)]] =
     Inr [JDict [(''record_id'', JStr ''0123456789ab''), (''source'', JStr ''sales''),
                 (''extracted_at'', JStr ''2024-01-01T00:00:00''),
                 (''extracted_date'', JStr ''2024-01-01''),
                 (''raw_data'', JDict [(''id'', JInt 7)]),
                 (''sale'', JDict [(''id'', JInt 7), (''user_id'', JNull),
                                   (''title'', JStr []), (''body'', JStr [])])]]"
  by code_simp


subsection \<open>Extractor\<close>

lemma requests_target_error: "requests_target s c = Inl e \<Longrightarrow> exc_cls e \<noteq> ImportError"
  by (auto simp: requests_target_def bind_err_Inl split: if_splits
      dest!: py_get_error py_getitem_error)

lemma offline_requests_path:
  "requests_path offline_world t s c = bind_err (requests_target s c) (\<lambda>target. Inr JNull)"
  unfolding requests_path_def
  by (cases "requests_target s c")
     (simp_all add: requests_response_def offline_world_def sample_world_def split_def)

lemma offline_extract: "extract_data_safe offline_world t source_name config = JNull"
proof (cases "requests_target source_name config")
  case (Inl e)
  with requests_target_error[OF Inl] show ?thesis
    by (simp add: extract_data_safe_def offline_requests_path)
next
  case (Inr target)
  then show ?thesis
    by (simp add: extract_data_safe_def offline_requests_path)
qed

subsection \<open>Run orchestrator\<close>

lemma process_source_none:
  "extract_data_safe w (snd st) (fst src) (snd src) = JNull \<Longrightarrow>
   process_source w st src = (fst st, snd st + 1)"
  by (simp add: process_source_def Let_def)

lemma process_sources_append:
  "process_sources w st (xs @ ys) = process_sources w (process_sources w st xs) ys"
  by (induction xs arbitrary: st) auto

lemma process_source_processed:
  "name \<in> set (sources_processed (fst (process_source w st src))) \<Longrightarrow>
   name \<in> set (sources_processed (fst st)) \<or>
   (name = fst src \<and> py_truthy w (extract_data_safe w (snd st) (fst src) (snd src)))"
  by (auto simp: process_source_def Let_def split: if_splits sum.splits)

lemma process_sources_processed:
  "name \<in> set (sources_processed (fst (process_sources w st items))) \<Longrightarrow>
   name \<in> set (sources_processed (fst st)) \<or>
   (\<exists>t config. (name, config) \<in> set items \<and> py_truthy w (extract_data_safe w t name config))"
proof (induction items arbitrary: st)
  case Nil
  then show ?case by simp
next
  case (Cons src items)
  from Cons.IH[of "process_source w st src"] Cons.prems
  consider "name \<in> set (sources_processed (fst (process_source w st src)))"
    | "\<exists>t config. (name, config) \<in> set items \<and> py_truthy w (extract_data_safe w t name config)"
    by auto
  then show ?case
  proof cases
    case 1
    from process_source_processed[OF 1] show ?thesis
      by (cases src) auto
  next
    case 2
    then show ?thesis by auto
  qed
qed

lemma process_source_success: "success (fst (process_source w st src)) = success (fst st)"
  by (auto simp: process_source_def Let_def split: sum.splits)

lemma process_sources_success: "success (fst (process_sources w st items)) = success (fst st)"
  by (induction items arbitrary: st) (auto simp: process_source_success)

lemma pipeline_body_cases:
  "pipeline_body w r0 = (config, r1, t, exc) \<Longrightarrow>
   config = get_configuration w 1 \<and>
   ((\<not> py_truthy w config \<and> r1 = r0 \<and> exc \<noteq> None) \<or>
    (py_truthy w config \<and> (\<exists>e. data_source_items config = Inl e) \<and> r1 = r0 \<and> exc \<noteq> None) \<or>
    (py_truthy w config \<and> (\<exists>items. data_source_items config = Inr items \<and>
       (let st = process_sources w (r0, 2) items in
        (\<exists>e. save_execution_summary w (snd st) (fst st) config = Inl e \<and> r1 = fst st \<and> exc = Some e) \<or>
        (\<exists>p. save_execution_summary w (snd st) (fst st) config = Inr p \<and>
             r1 = (fst st)\<lparr>files_created := files_created (fst st) @ [p]\<rparr> \<and> exc = None)))))"
  by (auto simp: pipeline_body_def Let_def split: if_splits sum.splits)

lemma final_results_cases:
  assumes fin: "final_results w context = Inr r"
  obtains rid config r1 t exc where
    "request_id_of context = Inr rid"
    "pipeline_body w (initial_results w rid) = (config, r1, t, exc)"
    "success r = success (after_try r1 exc)"
    "sources_processed r = sources_processed (after_try r1 exc)"
proof -
  from fin obtain rid where rid: "request_id_of context = Inr rid"
    by (auto simp: final_results_def bind_err_Inr)
  obtain config r1 t exc where pb: "pipeline_body w (initial_results w rid) = (config, r1, t, exc)"
    by (cases "pipeline_body w (initial_results w rid)") auto
  from fin rid pb have
    "r = (after_try r1 exc)\<lparr>end_time := Some (now_isoformat w t),
                              duration_seconds := Some (total_seconds w 0 t)\<rparr>"
    by (auto simp: final_results_def bind_err_Inr Let_def)
  then have "success r = success (after_try r1 exc)"
    "sources_processed r = sources_processed (after_try r1 exc)" by simp_all
  with rid pb show thesis using that by blast
qed

subsection \<open>Runs in the sample worlds\<close>

lemma offline_run:
  "final_results offline_world None =
     Inr \<lparr>execution_id = ''local-test'', start_time = ''2024-01-01T00:00:00'',
          end_time = Some ''2024-01-01T00:00:00'', duration_seconds = Some (0, 0),
          success = True, sources_processed = [], total_records = 0, errors = [],
          files_created = [''metadata/executions/date=2024-01-01/execution_local-test.json'']\<rparr>"
  by code_simp

lemma summary_denied_run:
  "final_results summary_denied_world None =
     Inr \<lparr>execution_id = ''local-test'', start_time = ''2024-01-01T00:00:00'',
          end_time = Some ''2024-01-01T00:00:00'', duration_seconds = Some (0, 0),
          success = False, sources_processed = [''marketing'', ''sales'', ''crm''],
          total_records = 3, errors = [''Fatal error: AccessDenied''],
          files_created =
            [''data/marketing/date=2024-01-01/marketing_20240101_000000.json'',
             ''data/sales/date=2024-01-01/sales_20240101_000000.json'',
             ''data/crm/date=2024-01-01/crm_20240101_000000.json'']\<rparr>"
  by code_simp

lemma sample_handler_run:
  "lambda_handler sample_world JNull None =
     Inr \<lparr>statusCode = 200, body = ''{}'', headers = [(''Content-Type'', ''application/json'')]\<rparr>"
  by code_simp

lemma summary_denied_handler_run:
  "lambda_handler summary_denied_world JNull None =
     Inr \<lparr>statusCode = 500, body = ''{}'', headers = [(''Content-Type'', ''application/json'')]\<rparr>"
  by code_simp

subsection \<open>Payloads in the output\<close>













section \<open>Transformer: the claims\<close>

text \<open>
  C9. The raw marketing record of the example, with a description of 300 characters and
  the price given as the string \<^verbatim>\<open>"9.99"\<close>, is transformed into one record whose
  \<^verbatim>\<open>product.description\<close> is the first 200 characters of the description, so of length at
  most 200, and whose \<^verbatim>\<open>product.price\<close> is the float that \<^verbatim>\<open>float("9.99")\<close> returns,
  which is what the literal \<^verbatim>\<open>9.99\<close> denotes.
\<close>

theorem marketing_example_transformed:
  assumes "float_of_str w ''9.99'' = Inr x"
  shows "\<exists>d p desc.
           transform_data w t ''marketing'' [marketing_example] = Inr [JDict d] \<and>
           map_of d ''product'' = Some (JDict p) \<and>
           map_of p ''description'' = Some (JStr desc) \<and>
           desc = replicate 200 CHR ''d'' \<and> length desc \<le> 200 \<and>
           map_of p ''price'' = Some (JFloat x)"
  using marketing_example_product[OF assms]
  by (simp add: transform_data_def transform_record_def envelope_def encode_unique_string_def
      Let_def update_conv')

theorem marketing_example_transformed_witness:
  "float_of_str sample_world ''9.99'' = Inr (999, - 2) \<and>
   (\<exists>d p desc.
      transform_data sample_world 0 ''marketing'' [marketing_example] = Inr [JDict d] \<and>
      map_of d ''product'' = Some (JDict p) \<and>
      map_of p ''description'' = Some (JStr desc) \<and>
      desc = replicate 200 CHR ''d'' \<and> length desc \<le> 200 \<and>
      map_of p ''price'' = Some (JFloat (999, - 2)))"
proof -
  have h: "float_of_str sample_world ''9.99'' = Inr (999, - 2)"
    by (simp add: sample_world_def)
  show ?thesis
    using h marketing_example_transformed[OF h, of 0] by simp
qed

text \<open>
  C10 as stated fails: it promises a result for every source name and every list of raw
  records, but for a known source the payload is built from the record and may raise. A
  marketing record whose price is \<^verbatim>\<open>null\<close> makes \<^verbatim>\<open>float(None)\<close> raise a
  \<^verbatim>\<open>TypeError\<close>, which leaves \<^verbatim>\<open>transform_data\<close>.
\<close>

theorem transform_data_raises_counterexample:
  "transform_data sample_world 0 ''marketing'' [JDict [(''price'', JNull)]] =
     Inl (Exc TypeError ''float() argument must be a string or a real number'')"
  by code_simp

text \<open>
  C10, amended. Whenever \<^verbatim>\<open>transform_data\<close> returns, for any source name and any list of
  raw records, the result has the length of the input and its record at each index is a
  dict with the keys \<^verbatim>\<open>record_id\<close>, \<^verbatim>\<open>source\<close>, \<^verbatim>\<open>extracted_at\<close>,
  \<^verbatim>\<open>extracted_date\<close> and \<^verbatim>\<open>raw_data\<close>, where \<^verbatim>\<open>source\<close> is the given source name and
  \<^verbatim>\<open>raw_data\<close> the input record at that index, unchanged. For a source name other than the
  three known ones it returns exactly when the list is empty or the name holds no lone
  surrogate; on a name with a lone surrogate and a list that is not empty, line 339 raises
  \<^verbatim>\<open>UnicodeEncodeError\<close>.
\<close>

theorem transform_data_envelopes:
  "(transform_data w t source_name raw_data = Inr out \<longrightarrow>
      length out = length raw_data \<and>
      (\<forall>i < length raw_data. \<exists>d. out ! i = JDict d \<and>
         {''record_id'', ''source'', ''extracted_at'', ''extracted_date'', ''raw_data''}
           \<subseteq> dom (map_of d) \<and>
         map_of d ''source'' = Some (JStr source_name) \<and>
         map_of d ''raw_data'' = Some (raw_data ! i))) \<and>
   (source_name \<notin> {''marketing'', ''sales'', ''crm''} \<longrightarrow>
      ((\<exists>out. transform_data w t source_name raw_data = Inr out) \<longleftrightarrow>
       raw_data = [] \<or> \<not> has_lone_surrogate source_name)) \<and>
   (has_lone_surrogate source_name \<and> raw_data \<noteq> [] \<longrightarrow>
      transform_data w t source_name raw_data =
        Inl (Exc UnicodeEncodeError ''surrogates not allowed''))"
proof (intro conjI impI)
  assume ok: "transform_data w t source_name raw_data = Inr out"
  then have all: "list_all2 (envelope_of source_name) raw_data out"
    using transform_loop_envelope[of w t source_name 0 "[]" raw_data out]
    by (simp add: transform_data_def)
  then show "length out = length raw_data" by (simp add: list_all2_lengthD)
  show "\<forall>i < length raw_data. \<exists>d. out ! i = JDict d \<and>
         {''record_id'', ''source'', ''extracted_at'', ''extracted_date'', ''raw_data''}
           \<subseteq> dom (map_of d) \<and>
         map_of d ''source'' = Some (JStr source_name) \<and>
         map_of d ''raw_data'' = Some (raw_data ! i)"
  proof (intro allI impI)
    fix i assume "i < length raw_data"
    with all have "envelope_of source_name (raw_data ! i) (out ! i)"
      by (simp add: list_all2_nthD)
    then show "\<exists>d. out ! i = JDict d \<and>
         {''record_id'', ''source'', ''extracted_at'', ''extracted_date'', ''raw_data''}
           \<subseteq> dom (map_of d) \<and>
         map_of d ''source'' = Some (JStr source_name) \<and>
         map_of d ''raw_data'' = Some (raw_data ! i)"
      by (cases "out ! i") (auto simp: envelope_of_def)
  qed
next
  assume "source_name \<notin> {''marketing'', ''sales'', ''crm''}"
  then show "(\<exists>out. transform_data w t source_name raw_data = Inr out) \<longleftrightarrow>
       raw_data = [] \<or> \<not> has_lone_surrogate source_name"
    by (rule transform_data_unknown)
next
  assume "has_lone_surrogate source_name \<and> raw_data \<noteq> []"
  then show "transform_data w t source_name raw_data =
        Inl (Exc UnicodeEncodeError ''surrogates not allowed'')"
    by (simp add: transform_data_surrogate)
qed

theorem transform_data_envelopes_witness:
  "transform_data sample_world 0 ''sales'' [JDict [(''id'', JInt 7)]] =
     Inr [JDict [(''record_id'', JStr ''0123456789ab''), (''source'', JStr ''sales''),
                 (''extracted_at'', JStr ''2024-01-01T00:00:00''),
                 (''extracted_date'', JStr ''2024-01-01''),
                 (''raw_data'', JDict [(''id'', JInt 7)]),
                 (''sale'', JDict [(''id'', JInt 7), (''user_id'', JNull),
                                   (''title'', JStr []), (''body'', JStr [])])]] \<and>
   length [JDict [(''record_id'', JStr ''0123456789ab'' :: (int \<times> int) json), (''source'', JStr ''sales''),
                 (''extracted_at'', JStr ''2024-01-01T00:00:00''),
                 (''extracted_date'', JStr ''2024-01-01''),
                 (''raw_data'', JDict [(''id'', JInt 7)]),
                 (''sale'', JDict [(''id'', JInt 7), (''user_id'', JNull),
                                   (''title'', JStr []), (''body'', JStr [])])]] =
     length [JDict [(''id'', JInt 7) :: string \<times> (int \<times> int) json]] \<and>
   ''inventory'' \<notin> {''marketing'', ''sales'', ''crm''} \<and>
   (\<exists>out. transform_data sample_world 0 ''inventory'' [JInt 7] = Inr out) \<and>
   has_lone_surrogate surrogate_name \<and>
   transform_data sample_world 0 surrogate_name [JInt 7] =
     Inl (Exc UnicodeEncodeError ''surrogates not allowed'')"
proof -
  note e = sales_sample_run
  have u: "''inventory'' \<notin> {''marketing'', ''sales'', ''crm''}" by simp
  have ns: "[JInt 7 :: (int \<times> int) json] = [] \<or> \<not> has_lone_surrogate ''inventory''" by simp
  have hs: "has_lone_surrogate surrogate_name" by (simp add: surrogate_name_def)
  have hs': "has_lone_surrogate surrogate_name \<and> [JInt 7 :: (int \<times> int) json] \<noteq> []"
    using hs by simp
  note T = transform_data_envelopes[of sample_world 0 "''sales''" "[JDict [(''id'', JInt 7)]]",
      THEN conjunct1, THEN mp, OF e]
  note B = transform_data_envelopes[of sample_world 0 "''inventory''" "[JInt 7]",
      THEN conjunct2, THEN conjunct1, THEN mp, OF u, THEN iffD2, OF ns]
  note C = transform_data_envelopes[of sample_world 0 surrogate_name "[JInt 7]",
      THEN conjunct2, THEN conjunct2, THEN mp, OF hs']
  note L = T[THEN conjunct1]
  from e L u B hs C show ?thesis by (intro conjI)
qed



section \<open>Configuration loader: the claim\<close>

text \<open>
  C8. When the retrieval of the secret fails (the call to the secret store raises, the
  answer has no \<^verbatim>\<open>SecretString\<close>, or the string is not JSON), \<^verbatim>\<open>get_configuration\<close>
  returns the built-in configuration, whose \<^verbatim>\<open>data_sources\<close> are exactly
  \<^verbatim>\<open>marketing\<close>, \<^verbatim>\<open>sales\<close> and \<^verbatim>\<open>crm\<close>. The function has no exception in its type:
  it returns on every world.
\<close>

theorem get_configuration_fallback:
  assumes "(\<exists>e. get_secret_value w t (SECRET_NAME w) = Inl e) \<or>
           (\<exists>response. get_secret_value w t (SECRET_NAME w) = Inr response \<and>
              (map_of response ''SecretString'' = None \<or>
               (\<exists>s e. map_of response ''SecretString'' = Some s \<and> json_loads w s = Inl e)))"
  shows "get_configuration w t = default_configuration \<and>
         (\<exists>sources. py_getitem (get_configuration w t) ''data_sources'' = Inr (JDict sources) \<and>
            map fst sources = [''marketing'', ''sales'', ''crm''])"
proof -
  from assms have "\<exists>e. secret_config w t = Inl e"
    by (auto simp: secret_config_def)
  then have "get_configuration w t = default_configuration"
    by (auto simp: get_configuration_def)
  then show ?thesis by (simp add: default_configuration_def)
qed

theorem get_configuration_fallback_witness:
  "get_secret_value sample_world 1 (SECRET_NAME sample_world) =
     Inl (Exc Exception ''ResourceNotFoundException'') \<and>
   get_configuration sample_world 1 = default_configuration"
proof -
  have h: "get_secret_value sample_world 1 (SECRET_NAME sample_world) =
     Inl (Exc Exception ''ResourceNotFoundException'')"
    by (simp add: sample_world_def)
  then have "\<exists>e. get_secret_value sample_world 1 (SECRET_NAME sample_world) = Inl e" ..
  then have "(\<exists>e. get_secret_value sample_world 1 (SECRET_NAME sample_world) = Inl e) \<or>
           (\<exists>response. get_secret_value sample_world 1 (SECRET_NAME sample_world) = Inr response \<and>
              (map_of response ''SecretString'' = None \<or>
               (\<exists>s e. map_of response ''SecretString'' = Some s \<and> json_loads sample_world s = Inl e)))"
    by (rule disjI1)
  from h get_configuration_fallback[OF this, THEN conjunct1] show ?thesis by (intro conjI)
qed

section \<open>Extractor: the claims\<close>

text \<open>
  C4 as stated fails in its last part: the \<^verbatim>\<open>KeyError\<close> of \<^verbatim>\<open>config['url']\<close> is raised
  inside the outer \<^verbatim>\<open>try\<close> and caught by its \<^verbatim>\<open>except Exception\<close>, so the caller gets
  \<^verbatim>\<open>None\<close>, not an exception.
\<close>

theorem missing_url_caught_counterexample:
  "requests_path sample_world 0 ''inventory'' (JDict []) =
     Inl (Exc KeyError (CHR 0x27 # ''url'' @ [CHR 0x27])) \<and>
   extract_data_safe sample_world 0 ''inventory'' (JDict []) = JNull"
  by code_simp

text \<open>
  C4, amended. For a source name other than \<^verbatim>\<open>marketing\<close>, \<^verbatim>\<open>sales\<close> and \<^verbatim>\<open>crm\<close>,
  \<^verbatim>\<open>extract_data_safe\<close> requests the URL \<^verbatim>\<open>config['url']\<close>, with empty query parameters
  on the \<^verbatim>\<open>requests\<close> path, and returns what the answer to that request gives; without
  \<^verbatim>\<open>requests\<close> it requests the same URL with \<^verbatim>\<open>urllib3\<close>. When the key \<^verbatim>\<open>url\<close> is
  absent, the \<^verbatim>\<open>KeyError\<close> is raised where the URL is built, on either path, and caught
  inside \<^verbatim>\<open>extract_data_safe\<close>, which returns \<^verbatim>\<open>None\<close>.
\<close>

theorem unknown_source_target:
  assumes "source_name \<notin> {''marketing'', ''sales'', ''crm''}"
  shows "(map_of d ''url'' = Some url \<longrightarrow>
            requests_target source_name (JDict d) = Inr (url, []) \<and>
            urllib3_target w source_name (JDict d) = Inr url \<and>
            extract_data_safe w t source_name (JDict d) =
              (case (if requests_importable w
                     then bind_err (requests_get w t url []) (requests_response (JDict d))
                     else Inl (Exc ImportError ''No module named requests'')) of
                 Inr r \<Rightarrow> r
               | Inl e \<Rightarrow>
                   (if exc_cls e = ImportError then
                      (case bind_err (urllib3_request w t url) (urllib3_response (JDict d)) of
                         Inr r \<Rightarrow> r
                       | Inl e' \<Rightarrow> JNull)
                    else JNull)) \<and>
            (requests_importable w \<and> requests_get w t url [] = Inr response \<and>
             requests_response (JDict d) response = Inr v \<longrightarrow>
               extract_data_safe w t source_name (JDict d) = v) \<and>
            (\<not> requests_importable w \<and> urllib3_request w t url = Inr response \<and>
             urllib3_response (JDict d) response = Inr v \<longrightarrow>
               extract_data_safe w t source_name (JDict d) = v)) \<and>
         (map_of d ''url'' = None \<longrightarrow>
            requests_target source_name (JDict d) =
              Inl (Exc KeyError (CHR 0x27 # ''url'' @ [CHR 0x27])) \<and>
            urllib3_target w source_name (JDict d) =
              Inl (Exc KeyError (CHR 0x27 # ''url'' @ [CHR 0x27])) \<and>
            extract_data_safe w t source_name (JDict d) = JNull)"
proof (intro conjI impI)
  assume url: "map_of d ''url'' = Some url"
  from assms url show rt: "requests_target source_name (JDict d) = Inr (url, [])"
    by (auto simp: requests_target_def)
  from assms url show ut: "urllib3_target w source_name (JDict d) = Inr url"
    by (auto simp: urllib3_target_def)
  have up: "urllib3_path w t source_name (JDict d) =
              bind_err (urllib3_request w t url) (urllib3_response (JDict d))"
    by (simp add: urllib3_path_def ut)
  have rp: "requests_path w t source_name (JDict d) =
              (if requests_importable w
               then bind_err (requests_get w t url []) (requests_response (JDict d))
               else Inl (Exc ImportError ''No module named requests''))"
    by (simp add: requests_path_def rt)
  show ex: "extract_data_safe w t source_name (JDict d) =
              (case (if requests_importable w
                     then bind_err (requests_get w t url []) (requests_response (JDict d))
                     else Inl (Exc ImportError ''No module named requests'')) of
                 Inr r \<Rightarrow> r
               | Inl e \<Rightarrow>
                   (if exc_cls e = ImportError then
                      (case bind_err (urllib3_request w t url) (urllib3_response (JDict d)) of
                         Inr r \<Rightarrow> r
                       | Inl e' \<Rightarrow> JNull)
                    else JNull))"
    unfolding extract_data_safe_def rp up ..
  {
    assume "requests_importable w \<and> requests_get w t url [] = Inr response \<and>
             requests_response (JDict d) response = Inr v"
    then show "extract_data_safe w t source_name (JDict d) = v"
      by (simp add: ex)
  }
  {
    assume "\<not> requests_importable w \<and> urllib3_request w t url = Inr response \<and>
             urllib3_response (JDict d) response = Inr v"
    then show "extract_data_safe w t source_name (JDict d) = v"
      by (simp add: ex)
  }
next
  assume "map_of d ''url'' = None"
  with assms show "requests_target source_name (JDict d) =
              Inl (Exc KeyError (CHR 0x27 # ''url'' @ [CHR 0x27]))"
    by (auto simp: requests_target_def)
next
  assume "map_of d ''url'' = None"
  with assms show "urllib3_target w source_name (JDict d) =
              Inl (Exc KeyError (CHR 0x27 # ''url'' @ [CHR 0x27]))"
    by (auto simp: urllib3_target_def)
next
  assume "map_of d ''url'' = None"
  with assms show "extract_data_safe w t source_name (JDict d) = JNull"
    by (auto simp: requests_target_def urllib3_target_def extract_data_safe_def
        requests_path_def urllib3_path_def)
qed

theorem unknown_source_target_witness:
  "''inventory'' \<notin> {''marketing'', ''sales'', ''crm''} \<and>
   requests_target ''inventory'' (JDict [(''url'', JStr ''https://example.org/items'' :: (int \<times> int) json)]) =
     Inr (JStr ''https://example.org/items'', []) \<and>
   requests_get catalog_world 0 (JStr ''https://example.org/items'') [] = Inr sample_response \<and>
   extract_data_safe catalog_world 0 ''inventory'' (JDict [(''url'', JStr ''https://example.org/items'')]) =
     JList [JDict [(''id'', JInt 1), (''price'', JStr ''9.99'')]] \<and>
   extract_data_safe sample_world 0 ''inventory'' (JDict []) = JNull"
proof -
  have u: "''inventory'' \<notin> {''marketing'', ''sales'', ''crm''}" by simp
  have p1: "map_of [(''url'', JStr ''https://example.org/items'' :: (int \<times> int) json)] ''url'' =
            Some (JStr ''https://example.org/items'')" by simp
  have p2: "map_of ([] :: (string \<times> (int \<times> int) json) list) ''url'' = None" by simp
  have g: "requests_get catalog_world 0 (JStr ''https://example.org/items'') [] = Inr sample_response"
    by (simp add: catalog_world_def)
  have r: "requests_response (JDict [(''url'', JStr ''https://example.org/items'')]) sample_response =
             Inr (JList [JDict [(''id'', JInt 1), (''price'', JStr ''9.99'')]])"
    by code_simp
  have i: "requests_importable catalog_world" by (simp add: catalog_world_def sample_world_def)
  from i g r have p3: "requests_importable catalog_world \<and>
      requests_get catalog_world 0 (JStr ''https://example.org/items'') [] = Inr sample_response \<and>
      requests_response (JDict [(''url'', JStr ''https://example.org/items'')]) sample_response =
        Inr (JList [JDict [(''id'', JInt 1), (''price'', JStr ''9.99'')]])"
    by (intro conjI)
  note a = unknown_source_target[OF u, where w = catalog_world and t = 0
      and d = "[(''url'', JStr ''https://example.org/items'')]"
      and url = "JStr ''https://example.org/items''" and response = sample_response
      and v = "JList [JDict [(''id'', JInt 1), (''price'', JStr ''9.99'')]]"]
  note b = unknown_source_target[OF u, where w = sample_world and t = 0 and d = "[]"]
  note a0 = a[THEN conjunct1, THEN mp, OF p1]
  note a1 = a0[THEN conjunct1]
  note a4 = a0[THEN conjunct2, THEN conjunct2, THEN conjunct2, THEN conjunct1, THEN mp, OF p3]
  note b1 = b[THEN conjunct2, THEN mp, OF p2, THEN conjunct2, THEN conjunct2]
  from u a1 g a4 b1 show ?thesis by (intro conjI)
qed

text \<open>
  C5. The \<^verbatim>\<open>requests\<close> path unwraps a body with a \<^verbatim>\<open>products\<close> key; the \<^verbatim>\<open>urllib3\<close>
  path has no such branch and wraps the whole object in a list. The same answer,
  \<^verbatim>\<open>{"products": [{"id": 1}]}\<close>, gives the list of products with \<^verbatim>\<open>requests\<close> installed
  and a one-element list holding the whole body without it.
\<close>

theorem products_shape_differs_between_paths:
  "extract_data_safe products_world 0 ''marketing'' (JDict []) = JList [JDict [(''id'', JInt 1)]] \<and>
   extract_data_safe fallback_world 0 ''marketing'' (JDict []) =
     JList [JDict [(''products'', JList [JDict [(''id'', JInt 1)]])]]"
  by code_simp

section \<open>Run orchestrator: the claims\<close>

text \<open>
  C7. Whenever \<^verbatim>\<open>lambda_handler\<close> returns a response, its body is the serialized results
  of the run, its status code is 200 exactly when the success flag of these results is
  true, and 500 exactly when it is false.
\<close>

theorem status_code_reflects_success:
  assumes "lambda_handler w event ctx = Inr resp"
  shows "\<exists>results. final_results w ctx = Inr results \<and>
           body resp = json_dumps w (results_json results) \<and>
           (statusCode resp = 200 \<longleftrightarrow> success results) \<and>
           (statusCode resp = 500 \<longleftrightarrow> \<not> success results)"
  using assms by (auto simp: lambda_handler_def bind_err_Inr)

theorem status_code_reflects_success_witness:
  "lambda_handler sample_world JNull None =
     Inr \<lparr>statusCode = 200, body = ''{}'', headers = [(''Content-Type'', ''application/json'')]\<rparr> \<and>
   (\<exists>results. final_results sample_world None = Inr results \<and> success results) \<and>
   lambda_handler summary_denied_world JNull None =
     Inr \<lparr>statusCode = 500, body = ''{}'', headers = [(''Content-Type'', ''application/json'')]\<rparr> \<and>
   (\<exists>results. final_results summary_denied_world None = Inr results \<and> \<not> success results)"
proof -
  from status_code_reflects_success[OF sample_handler_run]
  have a: "\<exists>results. final_results sample_world None = Inr results \<and> success results"
    by auto
  from status_code_reflects_success[OF summary_denied_handler_run]
  have b: "\<exists>results. final_results summary_denied_world None = Inr results \<and> \<not> success results"
    by auto
  from sample_handler_run a summary_denied_handler_run b show ?thesis by (intro conjI)
qed

text \<open>
  C3. The handler does not return on every input. When the secret holds a JSON object
  without \<^verbatim>\<open>data_sources\<close>, the \<^verbatim>\<open>KeyError\<close> of line 79 is caught by the outer
  \<^verbatim>\<open>except\<close>, but line 135, outside the \<^verbatim>\<open>try\<close>, evaluates
  \<^verbatim>\<open>config['data_sources']\<close> again, and this \<^verbatim>\<open>KeyError\<close> leaves \<^verbatim>\<open>lambda_handler\<close>.
\<close>

theorem handler_raises_on_missing_data_sources:
  "get_configuration misconfigured_world 1 = JDict [(''version'', JInt 1)] \<and>
   lambda_handler misconfigured_world JNull None =
     Inl (Exc KeyError (CHR 0x27 # ''data_sources'' @ [CHR 0x27]))"
  by code_simp

text \<open>
  C1 as stated fails in its middle part: a source whose extraction returns \<^verbatim>\<open>None\<close> takes
  the \<^verbatim>\<open>else\<close> branch of line 104, which logs a warning and appends nothing to
  \<^verbatim>\<open>errors\<close>. With every upstream API answering 500, the extraction of \<^verbatim>\<open>marketing\<close>
  at its turn (step 2, with its default configuration) returns \<^verbatim>\<open>None\<close> and the run ends
  with an empty \<^verbatim>\<open>errors\<close> list.
\<close>

theorem none_extraction_not_in_errors_counterexample:
  "extract_data_safe offline_world 2 ''marketing''
     (JDict [(''name'', JStr ''FakeStore API''),
             (''url'', JStr ''https://fakestoreapi.com/products''),
             (''default_limit'', JInt 10)]) = JNull \<and>
   final_results offline_world None =
     Inr \<lparr>execution_id = ''local-test'', start_time = ''2024-01-01T00:00:00'',
          end_time = Some ''2024-01-01T00:00:00'', duration_seconds = Some (0, 0),
          success = True, sources_processed = [], total_records = 0, errors = [],
          files_created = [''metadata/executions/date=2024-01-01/execution_local-test.json'']\<rparr>"
  using offline_extract offline_run by (intro conjI)

text \<open>
  C1, amended. A source whose extraction returns \<^verbatim>\<open>None\<close> leaves the results of the run
  as they were: it adds nothing to \<^verbatim>\<open>total_records\<close>, no entry to \<^verbatim>\<open>errors\<close>, and is
  not appended to \<^verbatim>\<open>sources_processed\<close>. This holds for one round of the loop and for
  the loop, which goes on from the unchanged results; and in the results of a run, a source
  name whose extractions all return \<^verbatim>\<open>None\<close> is not in \<^verbatim>\<open>sources_processed\<close>.
\<close>

theorem extraction_none_leaves_results:
  "(extract_data_safe w (snd st) (fst src) (snd src) = JNull \<longrightarrow>
      process_source w st src = (fst st, snd st + 1)) \<and>
   (extract_data_safe w (snd (process_sources w st pre)) (fst src) (snd src) = JNull \<longrightarrow>
      process_sources w st (pre @ src # post) =
        process_sources w (fst (process_sources w st pre), snd (process_sources w st pre) + 1) post) \<and>
   (final_results w ctx = Inr r \<and>
    (\<forall>t config. extract_data_safe w t source_name config = JNull) \<longrightarrow>
      source_name \<notin> set (sources_processed r))"
proof (intro conjI impI)
  assume "extract_data_safe w (snd st) (fst src) (snd src) = JNull"
  then show "process_source w st src = (fst st, snd st + 1)"
    by (rule process_source_none)
next
  assume "extract_data_safe w (snd (process_sources w st pre)) (fst src) (snd src) = JNull"
  then have "process_source w (process_sources w st pre) src =
      (fst (process_sources w st pre), snd (process_sources w st pre) + 1)"
    by (rule process_source_none)
  then show "process_sources w st (pre @ src # post) =
        process_sources w (fst (process_sources w st pre), snd (process_sources w st pre) + 1) post"
    by (simp add: process_sources_append)
next
  assume a: "final_results w ctx = Inr r \<and>
    (\<forall>t config. extract_data_safe w t source_name config = JNull)"
  then have fin: "final_results w ctx = Inr r"
    and none: "\<And>t config. \<not> py_truthy w (extract_data_safe w t source_name config)" by simp_all
  from fin obtain rid config r1 t exc where
    pb: "pipeline_body w (initial_results w rid) = (config, r1, t, exc)" and
    sp: "sources_processed r = sources_processed (after_try r1 exc)"
    by (rule final_results_cases)
  have sp': "sources_processed (after_try r1 exc) = sources_processed r1"
    by (cases exc) (auto simp: after_try_def)
  have init: "sources_processed (initial_results w rid) = []" by (simp add: initial_results_def)
  show "source_name \<notin> set (sources_processed r)"
  proof
    assume "source_name \<in> set (sources_processed r)"
    with sp sp' have "source_name \<in> set (sources_processed r1)" by simp
    with pipeline_body_cases[OF pb] init obtain items where
      "source_name \<in> set (sources_processed (fst (process_sources w (initial_results w rid, 2) items)))"
      by (auto simp: Let_def)
    from process_sources_processed[OF this] init none show False by auto
  qed
qed

theorem extraction_none_leaves_results_witness:
  "extract_data_safe offline_world 2 ''marketing'' (JDict []) = JNull \<and>
   process_source offline_world (initial_results offline_world ''local-test'', 2)
       (''marketing'', JDict []) =
     (initial_results offline_world ''local-test'', 3) \<and>
   process_sources offline_world (initial_results offline_world ''local-test'', 2)
       [(''marketing'', JDict []), (''sales'', JDict [])] =
     process_sources offline_world (initial_results offline_world ''local-test'', 3)
       [(''sales'', JDict [])] \<and>
   (\<exists>r. final_results offline_world None = Inr r \<and> ''marketing'' \<notin> set (sources_processed r))"
proof -
  have p1: "extract_data_safe offline_world (snd (initial_results offline_world ''local-test'', 2::nat))
              (fst (''marketing'', JDict [])) (snd (''marketing'', JDict [])) = JNull"
    by (rule offline_extract)
  have p2: "extract_data_safe offline_world
              (snd (process_sources offline_world (initial_results offline_world ''local-test'', 2) []))
              (fst (''marketing'', JDict [])) (snd (''marketing'', JDict [])) = JNull"
    by (rule offline_extract)
  have p3: "final_results offline_world None =
     Inr \<lparr>execution_id = ''local-test'', start_time = ''2024-01-01T00:00:00'',
          end_time = Some ''2024-01-01T00:00:00'', duration_seconds = Some (0, 0),
          success = True, sources_processed = [], total_records = 0, errors = [],
          files_created = [''metadata/executions/date=2024-01-01/execution_local-test.json'']\<rparr> \<and>
     (\<forall>t config. extract_data_safe offline_world t ''marketing'' config = JNull)"
    using offline_run offline_extract by (intro conjI allI)
  note T = extraction_none_leaves_results[where w = offline_world
      and st = "(initial_results offline_world ''local-test'', 2)"
      and src = "(''marketing'', JDict [])" and pre = "[]" and post = "[(''sales'', JDict [])]"
      and ctx = None and source_name = "''marketing''"
      and r = "\<lparr>execution_id = ''local-test'', start_time = ''2024-01-01T00:00:00'',
          end_time = Some ''2024-01-01T00:00:00'', duration_seconds = Some (0, 0),
          success = True, sources_processed = [], total_records = 0, errors = [],
          files_created = [''metadata/executions/date=2024-01-01/execution_local-test.json'']\<rparr>"]
  note c1 = T[THEN conjunct1, THEN mp, OF p1]
  note c2 = T[THEN conjunct2, THEN conjunct1, THEN mp, OF p2]
  note c3 = T[THEN conjunct2, THEN conjunct2, THEN mp, OF p3]
  have a: "extract_data_safe offline_world 2 ''marketing'' (JDict []) = JNull"
    by (rule offline_extract)
  have b: "process_source offline_world (initial_results offline_world ''local-test'', 2)
       (''marketing'', JDict []) = (initial_results offline_world ''local-test'', 3)"
    using c1 by simp
  have c: "process_sources offline_world (initial_results offline_world ''local-test'', 2)
       [(''marketing'', JDict []), (''sales'', JDict [])] =
     process_sources offline_world (initial_results offline_world ''local-test'', 3)
       [(''sales'', JDict [])]"
    using c2 by (simp only: process_sources.simps append_Nil fst_conv snd_conv) simp
  have d: "\<exists>r. final_results offline_world None = Inr r \<and> ''marketing'' \<notin> set (sources_processed r)"
    using p3[THEN conjunct1] c3 by blast
  from a b c d show ?thesis by (intro conjI)
qed

text \<open>
  C2 as stated fails: the write of the run summary, after the loop, is inside the outer
  \<^verbatim>\<open>try\<close> too. When the bucket refuses that write, the configuration has been loaded
  (the built-in one) and all three sources have been processed, and the run still ends with
  the success flag false.
\<close>

theorem summary_failure_sets_success_false_counterexample:
  "get_configuration summary_denied_world 1 = default_configuration \<and>
   final_results summary_denied_world None =
     Inr \<lparr>execution_id = ''local-test'', start_time = ''2024-01-01T00:00:00'',
          end_time = Some ''2024-01-01T00:00:00'', duration_seconds = Some (0, 0),
          success = False, sources_processed = [''marketing'', ''sales'', ''crm''],
          total_records = 3, errors = [''Fatal error: AccessDenied''],
          files_created =
            [''data/marketing/date=2024-01-01/marketing_20240101_000000.json'',
             ''data/sales/date=2024-01-01/sales_20240101_000000.json'',
             ''data/crm/date=2024-01-01/crm_20240101_000000.json'']\<rparr>"
proof -
  have "get_configuration summary_denied_world 1 = default_configuration" by code_simp
  with summary_denied_run show ?thesis by (intro conjI)
qed

text \<open>
  C2, amended. In a run that returns, the success flag is false exactly when an exception
  leaves the body of the outer \<^verbatim>\<open>try\<close>: the configuration read is falsy (the load
  failure of line 76), its \<^verbatim>\<open>data_sources\<close> cannot be read as a dict, or the write of the
  run summary after the loop raises. The loop over the sources never changes the flag, so
  no failure of a source sets it to false.
\<close>

theorem success_false_iff_outer_exception:
  assumes rid: "request_id_of ctx = Inr rid"
      and fin: "final_results w ctx = Inr r"
  shows "(success r = False \<longleftrightarrow>
            \<not> py_truthy w (get_configuration w 1) \<or>
            (\<exists>e. data_source_items (get_configuration w 1) = Inl e) \<or>
            (\<exists>items e. data_source_items (get_configuration w 1) = Inr items \<and>
               save_execution_summary w
                 (snd (process_sources w (initial_results w rid, 2) items))
                 (fst (process_sources w (initial_results w rid, 2) items))
                 (get_configuration w 1) = Inl e)) \<and>
         (\<forall>st items. success (fst (process_sources w st items)) = success (fst st))"
proof (intro conjI allI)
  from fin obtain rid' config r1 t exc where
    rid': "request_id_of ctx = Inr rid'" and
    pb: "pipeline_body w (initial_results w rid') = (config, r1, t, exc)" and
    s: "success r = success (after_try r1 exc)"
    by (rule final_results_cases)
  from rid rid' have [simp]: "rid' = rid" by simp
  have init: "success (initial_results w rid) = True" by (simp add: initial_results_def)
  note cases = pipeline_body_cases[OF pb]
  have r1: "success r1 = True"
    using cases init by (auto simp: Let_def process_sources_success)
  have "success r = False \<longleftrightarrow> exc \<noteq> None"
    using s r1 by (cases exc) (auto simp: after_try_def)
  also have "exc \<noteq> None \<longleftrightarrow>
      \<not> py_truthy w (get_configuration w 1) \<or>
      (\<exists>e. data_source_items (get_configuration w 1) = Inl e) \<or>
      (\<exists>items e. data_source_items (get_configuration w 1) = Inr items \<and>
         save_execution_summary w
           (snd (process_sources w (initial_results w rid, 2) items))
           (fst (process_sources w (initial_results w rid, 2) items))
           (get_configuration w 1) = Inl e)"
    using cases by (auto simp: Let_def)
  finally show "success r = False \<longleftrightarrow>
      \<not> py_truthy w (get_configuration w 1) \<or>
      (\<exists>e. data_source_items (get_configuration w 1) = Inl e) \<or>
      (\<exists>items e. data_source_items (get_configuration w 1) = Inr items \<and>
         save_execution_summary w
           (snd (process_sources w (initial_results w rid, 2) items))
           (fst (process_sources w (initial_results w rid, 2) items))
           (get_configuration w 1) = Inl e)" .
next
  fix st :: "'a results \<times> nat" and items
  show "success (fst (process_sources w st items)) = success (fst st)"
    by (rule process_sources_success)
qed

theorem success_false_iff_outer_exception_witness:
  "request_id_of None = Inr ''local-test'' \<and>
   (\<exists>r. final_results summary_denied_world None = Inr r \<and> success r = False) \<and>
   py_truthy summary_denied_world (get_configuration summary_denied_world 1) \<and>
   (\<exists>items e. data_source_items (get_configuration summary_denied_world 1) = Inr items \<and>
      save_execution_summary summary_denied_world
        (snd (process_sources summary_denied_world
                (initial_results summary_denied_world ''local-test'', 2) items))
        (fst (process_sources summary_denied_world
                (initial_results summary_denied_world ''local-test'', 2) items))
        (get_configuration summary_denied_world 1) = Inl e)"
proof -
  have h1: "request_id_of None = Inr ''local-test''" by (simp add: request_id_of_def)
  note T = success_false_iff_outer_exception[OF h1 summary_denied_run, THEN conjunct1]
  have s: "success \<lparr>execution_id = ''local-test'', start_time = ''2024-01-01T00:00:00'',
          end_time = Some ''2024-01-01T00:00:00'', duration_seconds = Some (0, 0),
          success = False, sources_processed = [''marketing'', ''sales'', ''crm''],
          total_records = 3, errors = [''Fatal error: AccessDenied''],
          files_created =
            [''data/marketing/date=2024-01-01/marketing_20240101_000000.json'',
             ''data/sales/date=2024-01-01/sales_20240101_000000.json'',
             ''data/crm/date=2024-01-01/crm_20240101_000000.json'']\<rparr> = False"
    by simp
  from summary_denied_run s
  have a: "\<exists>r. final_results summary_denied_world None = Inr r \<and> success r = False"
    by blast
  have truthy: "py_truthy summary_denied_world (get_configuration summary_denied_world 1)"
    by code_simp
  have "returns (data_source_items (get_configuration summary_denied_world 1))"
    by code_simp
  then have items: "\<exists>items. data_source_items (get_configuration summary_denied_world 1) = Inr items"
    by (simp only: returns_iff)
  note b = T[THEN iffD1, OF s]
  from b truthy items
  have c: "\<exists>items e. data_source_items (get_configuration summary_denied_world 1) = Inr items \<and>
      save_execution_summary summary_denied_world
        (snd (process_sources summary_denied_world
                (initial_results summary_denied_world ''local-test'', 2) items))
        (fst (process_sources summary_denied_world
                (initial_results summary_denied_world ''local-test'', 2) items))
        (get_configuration summary_denied_world 1) = Inl e"
    by (elim disjE exE) simp_all
  from h1 a truthy c show ?thesis by (intro conjI)
qed

end
